theory Spec2Isabelle
  imports Main "HOL-Library.Sublist" "HOL-Library.AList"
begin

section \<open>A command-line chat agent: index.js\<close>

text \<open>
  The program reads lines from the terminal, sends the whole conversation to a remote
  language model and, when the reply is a JSON object naming a tool, runs that tool on the
  local machine. This theory embeds the tool table, \<open>chatWithGemini\<close>,
  \<open>handleInput\<close> and \<open>promptLoop\<close> of \<open>src/index.js\<close>.

  JavaScript strings are modelled as \<open>string\<close>, the list of the bytes of their UTF-8
  encoding. What the program takes from its environment (the reply of the remote model, the
  shell, \<open>JSON.parse\<close>, the regular-expression matcher) is a parameter of the model,
  collected in the record \<open>runtime\<close>; the file system, the conversation and the sequence
  of calls to the outside are the state, the record \<open>world\<close>.
\<close>

subsection \<open>Strings\<close>

text \<open>
  \<open>String.prototype.replace\<close> with a pattern that has no \<open>g\<close> flag and consists of ordinary
  characters only (line 139): the leftmost occurrence of \<open>pat\<close> is replaced by \<open>rep\<close>;
  without an occurrence the subject is returned as it is.
\<close>

fun replace_first :: "string \<Rightarrow> string \<Rightarrow> string \<Rightarrow> string" where
  "replace_first pat rep [] = (if pat = [] then rep else [])"
| "replace_first pat rep (c # cs) =
     (if prefix pat (c # cs) then rep @ drop (length pat) (c # cs)
      else c # replace_first pat rep cs)"

text \<open>
  \<open>trim\<close> and \<open>toLowerCase\<close> on the ASCII range: the white space removed is space, tab,
  line feed, vertical tab, form feed and carriage return.
\<close>

definition is_space :: "char \<Rightarrow> bool" where
  "is_space c = (c = CHR '' '' \<or> c = CHR 0x09 \<or> c = CHR 0x0A \<or> c = CHR 0x0B
                 \<or> c = CHR 0x0C \<or> c = CHR 0x0D)"

definition trim :: "string \<Rightarrow> string" where
  "trim s = rev (dropWhile is_space (rev (dropWhile is_space s)))"

definition lower_char :: "char \<Rightarrow> char" where
  "lower_char c =
     (let n = (of_char c :: nat) in if 65 \<le> n \<and> n \<le> 90 then char_of (n + 32) else c)"

definition toLowerCase :: "string \<Rightarrow> string" where
  "toLowerCase s = map lower_char s"

fun join :: "string \<Rightarrow> string list \<Rightarrow> string" where
  "join sep [] = []"
| "join sep [x] = x"
| "join sep (x # y # ys) = x @ sep @ join sep (y # ys)"

definition digit_char :: "nat \<Rightarrow> char" where
  "digit_char d = char_of (48 + d)"

fun show_nat :: "nat \<Rightarrow> string" where
  "show_nat n = (if n < 10 then [digit_char n] else show_nat (n div 10) @ [digit_char (n mod 10)])"

definition show_int :: "int \<Rightarrow> string" where
  "show_int i = (if i < 0 then CHR ''-'' # show_nat (nat (- i)) else show_nat (nat i))"

subsection \<open>JSON values and thrown values\<close>

text \<open>
  The values \<open>JSON.parse\<close> can return. Numbers are restricted to integers. A property that
  is absent reads as \<open>undefined\<close>, modelled by \<open>None\<close> in \<open>json option\<close>.
\<close>

datatype json =
    JNull
  | JBool bool
  | JNum int
  | JStr string
  | JArr "json list"
  | JObj "(string \<times> json) list"

text \<open>Truthiness, as tested by \<open>&&\<close>, \<open>!\<close> and \<open>if\<close>.\<close>

fun truthy :: "json option \<Rightarrow> bool" where
  "truthy None = False"
| "truthy (Some JNull) = False"
| "truthy (Some (JBool b)) = b"
| "truthy (Some (JNum n)) = (n \<noteq> 0)"
| "truthy (Some (JStr s)) = (s \<noteq> [])"
| "truthy (Some (JArr xs)) = True"
| "truthy (Some (JObj kvs)) = True"

text \<open>\<open>typeof v === "string"\<close>.\<close>

fun is_string :: "json option \<Rightarrow> bool" where
  "is_string (Some (JStr s)) = True"
| "is_string _ = False"

text \<open>
  Reading a property by a fixed name, as the destructuring patterns \<open>{ path, oldStr, newStr }\<close>
  and the accesses \<open>payload.tool\<close>, \<open>payload.args\<close> do. In an object with a repeated key
  the last member wins. None of the names the program reads (\<open>tool\<close>, \<open>args\<close>, \<open>path\<close>,
  \<open>oldStr\<close>, \<open>newStr\<close>, \<open>content\<close>, \<open>command\<close>) is inherited from a prototype, so every
  value that is not an object reads as \<open>undefined\<close>. Reading a property of \<open>null\<close> throws;
  that case is a branch of \<open>handleInput\<close>.
\<close>

fun get_prop :: "json \<Rightarrow> string \<Rightarrow> json option" where
  "get_prop (JObj kvs) k = map_of (rev kvs) k"
| "get_prop _ k = None"

text \<open>
  \<open>ToString\<close>, used by template literals and by the computed property access \<open>tools[tool]\<close>.
  An array is the comma-joined list of its elements, with \<open>null\<close> printed as the empty
  string.
\<close>

fun to_string :: "json \<Rightarrow> string" where
  "to_string JNull = ''null''"
| "to_string (JBool b) = (if b then ''true'' else ''false'')"
| "to_string (JNum n) = show_int n"
| "to_string (JStr s) = s"
| "to_string (JArr xs) = join '','' (map (\<lambda>x. if x = JNull then [] else to_string x) xs)"
| "to_string (JObj kvs) = ''[object Object]''"

definition to_string_opt :: "json option \<Rightarrow> string" where
  "to_string_opt v = (case v of None \<Rightarrow> ''undefined'' | Some j \<Rightarrow> to_string j)"

text \<open>
  A thrown value is an error object (its \<open>name\<close> and its \<open>message\<close>) or, for the rejection
  of \<open>exec\<close> at line 59, a plain string.
\<close>

datatype js_exn =
    Thrown_Error string string
  | Thrown_string string

fun exn_to_string :: "js_exn \<Rightarrow> string" where
  "exn_to_string (Thrown_Error name msg) = (if msg = [] then name else name @ '': '' @ msg)"
| "exn_to_string (Thrown_string s) = s"

definition TypeError :: "string \<Rightarrow> js_exn" where
  "TypeError msg = Thrown_Error ''TypeError'' msg"

definition SyntaxError :: "string \<Rightarrow> js_exn" where
  "SyntaxError msg = Thrown_Error ''SyntaxError'' msg"

subsection \<open>Conversation, calls to the outside, state\<close>

text \<open>
  A turn of the conversation (lines 103, 133, 148, 151, 164): the role, the tool name for a
  tool turn (the value of \<open>payload.tool\<close>, whatever its type) and the content.
\<close>

datatype role = Assistant | User | Tool | Model

record turn =
  role :: role
  name :: "json option"
  content :: string

text \<open>The arguments of \<open>console.log\<close> and \<open>console.error\<close>: texts, values, thrown values.\<close>

datatype console_arg = Txt string | Val "json option" | Exn js_exn

text \<open>
  Every call the program makes to the outside is recorded, with its arguments, whether or
  not the call succeeds: what is written to the console, the calls of \<open>fs\<close>, the call of
  \<open>child_process.exec\<close> and the request to the remote model.
\<close>

datatype event =
    Console_log "console_arg list"
  | Console_error "console_arg list"
  | Fs_readdirSync string
  | Fs_readFileSync "json option"
  | Fs_writeFileSync "json option" "json option"
  | Fs_mkdirSync string
  | Child_exec "json option"
  | Axios_post "turn list"

text \<open>
  The file system: an association list from path names to nodes. A path name is taken as it
  is written (no resolution of \<open>.\<close> and \<open>..\<close> components or of repeated slashes); the working
  directory \<open>.\<close> and the root \<open>/\<close> always exist. Permissions, links and open file
  descriptors are not modelled.
\<close>

datatype node = File string | Dir

type_synonym filesystem = "(string \<times> node) list"

record world =
  files :: filesystem
  conversation :: "turn list"
  trace :: "event list"

definition emit :: "event \<Rightarrow> world \<Rightarrow> world" where
  "emit e w = w\<lparr>trace := trace w @ [e]\<rparr>"

definition push :: "turn \<Rightarrow> world \<Rightarrow> world" where
  "push t w = w\<lparr>conversation := conversation w @ [t]\<rparr>"

definition is_fs_event :: "event \<Rightarrow> bool" where
  "is_fs_event e = (case e of
       Fs_readdirSync _ \<Rightarrow> True | Fs_readFileSync _ \<Rightarrow> True | Fs_writeFileSync _ _ \<Rightarrow> True
     | Fs_mkdirSync _ \<Rightarrow> True | _ \<Rightarrow> False)"

definition is_tool_event :: "event \<Rightarrow> bool" where
  "is_tool_event e = (case e of Child_exec _ \<Rightarrow> True | _ \<Rightarrow> is_fs_event e)"

subsection \<open>The file system calls\<close>

definition fs_error :: "string \<Rightarrow> string \<Rightarrow> string \<Rightarrow> js_exn" where
  "fs_error code syscall p = Thrown_Error ''Error'' (code @ '', '' @ syscall @ '' '' @ [CHR 0x27] @ p @ [CHR 0x27])"

definition is_dir :: "filesystem \<Rightarrow> string \<Rightarrow> bool" where
  "is_dir fs p = (p = ''.'' \<or> p = ''/'' \<or> map_of fs p = Some Dir)"

text \<open>
  \<open>path.dirname\<close> of the POSIX \<open>path\<close> module: trailing slashes and the last component
  are dropped; a path without a directory part gives \<open>.\<close>, or \<open>/\<close> when it starts at the root.
\<close>

definition dirname :: "string \<Rightarrow> string" where
  "dirname p =
     (if p = [] then ''.''
      else
        let hasRoot = (hd p = CHR ''/'');
            r = dropWhile (\<lambda>c. c \<noteq> CHR ''/'') (dropWhile (\<lambda>c. c = CHR ''/'') (rev (tl p)))
        in if r = [] then (if hasRoot then ''/'' else ''.'')
           else if hasRoot \<and> length r = 1 then ''//''
           else take (length r) p)"

text \<open>The directories above a path: its prefixes that end before a slash.\<close>

fun dir_prefixes :: "string \<Rightarrow> string \<Rightarrow> string list" where
  "dir_prefixes pre [] = []"
| "dir_prefixes pre (c # cs) =
     (if c = CHR ''/'' \<and> pre \<noteq> [] \<and> last pre \<noteq> CHR ''/'' then [pre] else [])
       @ dir_prefixes (pre @ [c]) cs"

definition mkdir_targets :: "string \<Rightarrow> string list" where
  "mkdir_targets d = dir_prefixes [] d @ [d]"

text \<open>
  \<open>fs.mkdirSync(d, { recursive: true })\<close>: every missing directory on the way to \<open>d\<close> is
  created, from the outermost; an existing directory is left alone; a regular file in the
  way is an error, and what was created before it stays.
\<close>

fun mkdir_chain :: "string list \<Rightarrow> filesystem \<Rightarrow> js_exn option \<times> filesystem" where
  "mkdir_chain [] fs = (None, fs)"
| "mkdir_chain (d # ds) fs =
     (if is_dir fs d then mkdir_chain ds fs
      else case map_of fs d of
          Some (File c) \<Rightarrow> (Some (fs_error (if ds = [] then ''EEXIST'' else ''ENOTDIR'') ''mkdir'' d), fs)
        | _ \<Rightarrow> mkdir_chain ds (AList.update d Dir fs))"

definition mkdirSync :: "string \<Rightarrow> world \<Rightarrow> js_exn option \<times> world" where
  "mkdirSync d w =
     (let w1 = emit (Fs_mkdirSync d) w in
      if d = [] then (Some (fs_error ''ENOENT'' ''mkdir'' d), w1)
      else let (r, fs') = mkdir_chain (mkdir_targets d) (files w1) in (r, w1\<lparr>files := fs'\<rparr>))"

text \<open>
  \<open>fs.readFileSync(p, "utf-8")\<close>. A string names a file; an integer is taken by Node for a
  file descriptor, and none is open for reading; any other value is rejected by the
  argument check of \<open>fs\<close>.
\<close>

definition readFileSync :: "json option \<Rightarrow> world \<Rightarrow> (js_exn + string) \<times> world" where
  "readFileSync p w =
     (let w1 = emit (Fs_readFileSync p) w in
      case p of
        Some (JStr s) \<Rightarrow>
          (case map_of (files w1) s of
             Some (File c) \<Rightarrow> (Inr c, w1)
           | Some Dir \<Rightarrow> (Inl (fs_error ''EISDIR'' ''read'' s), w1)
           | None \<Rightarrow> (Inl (fs_error (if is_dir (files w1) s then ''EISDIR'' else ''ENOENT'') ''open'' s), w1))
      | Some (JNum n) \<Rightarrow> (Inl (Thrown_Error ''Error'' ''EBADF, read''), w1)
      | _ \<Rightarrow> (Inl (TypeError ''The path argument must be of type string''), w1))"

text \<open>
  \<open>fs.writeFileSync(p, data)\<close>: the data must be a string; the file is created or
  overwritten when its directory exists and the path is not a directory.
\<close>

definition writeFileSync :: "json option \<Rightarrow> json option \<Rightarrow> world \<Rightarrow> js_exn option \<times> world" where
  "writeFileSync p data w =
     (let w1 = emit (Fs_writeFileSync p data) w in
      case data of
        Some (JStr c) \<Rightarrow>
          (case p of
             Some (JStr s) \<Rightarrow>
               if s = [] then (Some (fs_error ''ENOENT'' ''open'' s), w1)
               else if last s = CHR ''/'' \<or> is_dir (files w1) s then (Some (fs_error ''EISDIR'' ''open'' s), w1)
               else if \<not> is_dir (files w1) (dirname s) then (Some (fs_error ''ENOENT'' ''open'' s), w1)
               else (None, w1\<lparr>files := AList.update s (File c) (files w1)\<rparr>)
           | Some (JNum n) \<Rightarrow> (Some (Thrown_Error ''Error'' ''EBADF, write''), w1)
           | _ \<Rightarrow> (Some (TypeError ''The path argument must be of type string''), w1))
      | _ \<Rightarrow> (Some (TypeError ''The data argument must be of type string''), w1))"

text \<open>\<open>fs.readdirSync(".")\<close>: the names in the working directory, in directory order.\<close>

definition readdirSync_cwd :: "world \<Rightarrow> string list \<times> world" where
  "readdirSync_cwd w =
     (let w1 = emit (Fs_readdirSync ''.'') w in
      (filter (\<lambda>k. k \<noteq> [] \<and> k \<noteq> ''.'' \<and> CHR ''/'' \<notin> set k) (remdups (map fst (files w1))), w1))"

subsection \<open>The environment\<close>

text \<open>
  A compiled regular expression is given by what it matches: \<open>m s i\<close> is the match that
  starts at index \<open>i\<close> of the subject \<open>s\<close>, if there is one, as the index where it ends and
  the texts of its capture groups.
\<close>

type_synonym matcher = "string \<Rightarrow> nat \<Rightarrow> (nat \<times> string option list) option"

text \<open>The failure of the request to the remote model: the error's name, its message and,
  when the server answered, the status and the body of the answer.\<close>

datatype api_failure = Api_failure string string "(int \<times> string) option"

text \<open>
  What the program does not define itself:
  \<^item> \<open>gemini\<close>: the outcome of \<open>axios.post\<close> followed by the selection
    \<open>res.data.candidates[0].content.parts[0].text\<close>, for the conversation sent;
  \<^item> \<open>JSON_parse\<close>: the value of a JSON text, or the \<open>SyntaxError\<close> thrown;
  \<^item> \<open>RegExp_g\<close>: \<open>new RegExp(pattern, "g")\<close>, a matcher or the \<open>SyntaxError\<close> thrown;
  \<^item> \<open>GetSubstitution\<close>: the expansion of a replacement text for one match (subject, start
    and end of the match, captures, replacement text), which interprets the \<open>$\<close> patterns;
  \<^item> \<open>shell\<close>: the effect of a shell command on the file system, with the standard output
    on success and \<open>stderr || err.message\<close> on failure.
\<close>

record runtime =
  gemini :: "turn list \<Rightarrow> api_failure + string"
  JSON_parse :: "string \<Rightarrow> js_exn + json"
  RegExp_g :: "string \<Rightarrow> js_exn + matcher"
  GetSubstitution :: "string \<Rightarrow> nat \<Rightarrow> nat \<Rightarrow> string option list \<Rightarrow> string \<Rightarrow> string"
  shell :: "string \<Rightarrow> filesystem \<Rightarrow> (string + string) \<times> filesystem"

text \<open>
  \<open>String.prototype.replace\<close> with a global regular expression (line 39): the subject is
  scanned from index \<open>i\<close>; a match is replaced by its substitution and the scan goes on at
  its end; after an empty match, and where nothing matches, one character is copied.
\<close>

function replace_from :: "matcher \<Rightarrow> (nat \<Rightarrow> nat \<Rightarrow> string option list \<Rightarrow> string) \<Rightarrow> string \<Rightarrow> nat \<Rightarrow> string" where
  "replace_from m sub s i =
     (if length s < i then []
      else case m s i of
          None \<Rightarrow> (if i < length s then s ! i # replace_from m sub s (Suc i) else [])
        | Some (e, caps) \<Rightarrow>
            if i < e \<and> e \<le> length s then sub i e caps @ replace_from m sub s e
            else sub i i caps @ (if i < length s then s ! i # replace_from m sub s (Suc i) else []))"
  by pat_completeness auto
termination
  by (relation "measure (\<lambda>(m, sub, s, i). length s - i)") auto

declare replace_from.simps [simp del]

definition replace_g :: "runtime \<Rightarrow> matcher \<Rightarrow> string \<Rightarrow> string \<Rightarrow> string" where
  "replace_g rt m s rep = replace_from m (\<lambda>i e caps. GetSubstitution rt s i e caps rep) s 0"

subsection \<open>The tools (lines 17 to 65)\<close>

definition dq :: string where
  "dq = [CHR 0x22]"

definition sq :: string where
  "sq = [CHR 0x27]"

definition glyph_pencil :: string where
  "glyph_pencil = [CHR 0xE2, CHR 0x9C, CHR 0x8F, CHR 0xEF, CHR 0xB8, CHR 0x8F]"

definition glyph_folder :: string where
  "glyph_folder = [CHR 0xF0, CHR 0x9F, CHR 0x93, CHR 0x81]"

definition glyph_cross :: string where
  "glyph_cross = [CHR 0xE2, CHR 0x9D, CHR 0x8C]"

definition glyph_robot :: string where
  "glyph_robot = [CHR 0xF0, CHR 0x9F, CHR 0xA4, CHR 0x96]"

definition glyph_tools :: string where
  "glyph_tools = [CHR 0xF0, CHR 0x9F, CHR 0x9B, CHR 0xA0]"

definition glyph_check :: string where
  "glyph_check = [CHR 0xE2, CHR 0x9C, CHR 0x85]"

definition glyph_boom :: string where
  "glyph_boom = [CHR 0xF0, CHR 0x9F, CHR 0x92, CHR 0xA5]"

definition glyph_question :: string where
  "glyph_question = [CHR 0xE2, CHR 0x9D, CHR 0x93]"

text \<open>Line 20.\<close>

definition list_files :: "json \<Rightarrow> world \<Rightarrow> (js_exn + string) \<times> world" where
  "list_files args w = (let (names, w1) = readdirSync_cwd w in (Inr (join [CHR 0x0A] names), w1))"

text \<open>Line 25.\<close>

definition read_file :: "json \<Rightarrow> world \<Rightarrow> (js_exn + string) \<times> world" where
  "read_file args w = readFileSync (get_prop args ''path'') w"

text \<open>Lines 31 to 42.\<close>

definition invalid_arguments :: "json option \<Rightarrow> json option \<Rightarrow> json option \<Rightarrow> js_exn" where
  "invalid_arguments path oldStr newStr =
     Thrown_Error ''Error''
       (''Missing or invalid arguments. Got: path='' @ to_string_opt path
          @ '', oldStr='' @ to_string_opt oldStr @ '', newStr='' @ to_string_opt newStr)"

definition edit_file :: "runtime \<Rightarrow> json \<Rightarrow> world \<Rightarrow> (js_exn + string) \<times> world" where
  "edit_file rt args w =
     (let path = get_prop args ''path'';
          oldStr = get_prop args ''oldStr'';
          newStr = get_prop args ''newStr''
      in if \<not> truthy path \<or> \<not> is_string oldStr \<or> \<not> is_string newStr
         then (Inl (invalid_arguments path oldStr newStr), w)
         else
           case readFileSync path w of
             (Inl e, w1) \<Rightarrow> (Inl e, w1)
           | (Inr text, w1) \<Rightarrow>
               (case RegExp_g rt (to_string_opt oldStr) of
                  Inl e \<Rightarrow> (Inl e, w1)
                | Inr m \<Rightarrow>
                    (case writeFileSync path (Some (JStr (replace_g rt m text (to_string_opt newStr)))) w1 of
                       (Some e, w2) \<Rightarrow> (Inl e, w2)
                     | (None, w2) \<Rightarrow>
                         (Inr (glyph_pencil @ '' Successfully edited '' @ sq @ to_string_opt path @ sq), w2))))"

text \<open>Lines 47 to 51.\<close>

definition create_file :: "json \<Rightarrow> world \<Rightarrow> (js_exn + string) \<times> world" where
  "create_file args w =
     (let path = get_prop args ''path'';
          data = get_prop args ''content''
      in case path of
           Some (JStr p) \<Rightarrow>
             (case mkdirSync (dirname p) w of
                (Some e, w1) \<Rightarrow> (Inl e, w1)
              | (None, w1) \<Rightarrow>
                  (case writeFileSync path data w1 of
                     (Some e, w2) \<Rightarrow> (Inl e, w2)
                   | (None, w2) \<Rightarrow> (Inr (glyph_folder @ '' Created '' @ to_string_opt path), w2)))
         | _ \<Rightarrow> (Inl (TypeError ''The path argument must be of type string''), w))"

text \<open>Lines 56 to 63: the promise is awaited by the caller, so a rejection is a thrown value.\<close>

definition exec :: "runtime \<Rightarrow> json \<Rightarrow> world \<Rightarrow> (js_exn + string) \<times> world" where
  "exec rt args w =
     (let command = get_prop args ''command'';
          w1 = emit (Child_exec command) w
      in case command of
           Some (JStr c) \<Rightarrow>
             (case shell rt c (files w1) of
                (Inl reason, fs') \<Rightarrow> (Inl (Thrown_string reason), w1\<lparr>files := fs'\<rparr>)
              | (Inr out, fs') \<Rightarrow> (Inr out, w1\<lparr>files := fs'\<rparr>))
         | _ \<Rightarrow> (Inl (TypeError ''The command argument must be of type string''), w1))"

text \<open>
  The table \<open>tools\<close> and the access \<open>tools[tool]\<close> of line 143. The table is an ordinary
  object, so besides its five own keys the access finds the properties every object
  inherits; these are truthy and have no \<open>func\<close>.
\<close>

datatype tool_id = List_files | Read_file | Edit_file | Create_file | Exec

datatype tool_entry = Registered tool_id | Inherited

definition registered :: "string \<Rightarrow> tool_id option" where
  "registered k =
     (if k = ''list_files'' then Some List_files
      else if k = ''read_file'' then Some Read_file
      else if k = ''edit_file'' then Some Edit_file
      else if k = ''create_file'' then Some Create_file
      else if k = ''exec'' then Some Exec
      else None)"

definition inherited_keys :: "string list" where
  "inherited_keys =
     [''constructor'', ''hasOwnProperty'', ''isPrototypeOf'', ''propertyIsEnumerable'',
      ''toLocaleString'', ''toString'', ''valueOf'', ''__proto__'', ''__defineGetter__'',
      ''__defineSetter__'', ''__lookupGetter__'', ''__lookupSetter__'']"

definition tools :: "string \<Rightarrow> tool_entry option" where
  "tools k =
     (case registered k of
        Some t \<Rightarrow> Some (Registered t)
      | None \<Rightarrow> if k \<in> set inherited_keys then Some Inherited else None)"

definition func :: "runtime \<Rightarrow> tool_id \<Rightarrow> json \<Rightarrow> world \<Rightarrow> (js_exn + string) \<times> world" where
  "func rt t args w =
     (case t of
        List_files \<Rightarrow> list_files args w
      | Read_file \<Rightarrow> read_file args w
      | Edit_file \<Rightarrow> edit_file rt args w
      | Create_file \<Rightarrow> create_file args w
      | Exec \<Rightarrow> exec rt args w)"

text \<open>\<open>await tools[tool].func(args)\<close>, line 146.\<close>

definition call_func :: "runtime \<Rightarrow> tool_entry \<Rightarrow> json \<Rightarrow> world \<Rightarrow> (js_exn + string) \<times> world" where
  "call_func rt entry args w =
     (case entry of
        Registered t \<Rightarrow> func rt t args w
      | Inherited \<Rightarrow> (Inl (TypeError ''tools[tool].func is not a function''), w))"

subsection \<open>The model client and the dispatch loop\<close>

text \<open>
  \<open>chatWithGemini\<close>, lines 106 to 129: the whole conversation is sent; the text of the answer
  is trimmed; a failure is written to the console and thrown again (line 127).
\<close>

definition chatWithGemini :: "runtime \<Rightarrow> world \<Rightarrow> (js_exn + string) \<times> world" where
  "chatWithGemini rt w =
     (let w1 = emit (Axios_post (conversation w)) w in
      case gemini rt (conversation w) of
        Inr text \<Rightarrow> (Inr (trim text), w1)
      | Inl (Api_failure ename msg resp) \<Rightarrow>
          (let w2 = emit (Console_error [Txt (glyph_cross @ '' Gemini API Error: '' @ msg)]) w1;
               w3 = (case resp of
                       None \<Rightarrow> w2
                     | Some (status, details) \<Rightarrow>
                         emit (Console_error [Txt ''Details:'', Txt details])
                           (emit (Console_error [Txt ''Status:'', Val (Some (JNum status))]) w2))
           in (Inl (Thrown_Error ename msg), w3)))"

text \<open>Line 139: the two replacements applied to the reply before it is parsed.\<close>

definition strip_fences :: "string \<Rightarrow> string" where
  "strip_fences reply = replace_first ''```'' [] (replace_first ''```json'' [] reply)"

text \<open>Lines 143 to 159: the branch taken when \<open>payload.tool && payload.args\<close> is truthy.\<close>

definition dispatch :: "runtime \<Rightarrow> json \<Rightarrow> json \<Rightarrow> world \<Rightarrow> world" where
  "dispatch rt tool args w =
     (case tools (to_string tool) of
        None \<Rightarrow> emit (Console_log [Txt (glyph_question @ '' Unknown tool: '' @ to_string tool)]) w
      | Some entry \<Rightarrow>
          (let w1 = emit (Console_log [Txt (glyph_tools @ '' Running tool '' @ dq @ to_string tool @ dq
                                            @ '' with args:''), Val (Some args)]) w
           in case call_func rt entry args w1 of
                (Inr result, w2) \<Rightarrow>
                  push \<lparr>role = Tool, name = Some tool, content = result\<rparr>
                    (emit (Console_log [Txt (glyph_check @ '' Tool '' @ dq @ to_string tool @ dq
                                             @ '' result:'' @ [CHR 0x0A] @ result @ [CHR 0x0A])]) w2)
              | (Inl err, w2) \<Rightarrow>
                  push \<lparr>role = Tool, name = Some tool, content = ''Error: '' @ exn_to_string err\<rparr>
                    (emit (Console_error [Txt (glyph_boom @ '' Tool '' @ dq @ to_string tool @ dq
                                               @ '' error:''), Exn err]) w2)))"

text \<open>
  Lines 138 to 168 of \<open>handleInput\<close>: the \<open>try\<close> block that interprets the reply, with its
  \<open>catch\<close>. It never throws: a \<open>SyntaxError\<close> of \<open>JSON.parse\<close> and the \<open>TypeError\<close> of reading
  \<open>payload.tool\<close> when the payload is \<open>null\<close> both end in line 167.
\<close>

definition handle_reply :: "runtime \<Rightarrow> string \<Rightarrow> world \<Rightarrow> world" where
  "handle_reply rt reply w =
     (case JSON_parse rt (strip_fences reply) of
        Inl err \<Rightarrow> emit (Console_error [Txt (''Error parsing reply: '' @ exn_to_string err)]) w
      | Inr payload \<Rightarrow>
          if payload = JNull
          then emit (Console_error [Txt (''Error parsing reply: '' @ exn_to_string
                       (TypeError ''Cannot read properties of null''))]) w
          else if truthy (get_prop payload ''tool'') \<and> truthy (get_prop payload ''args'')
          then (case (get_prop payload ''tool'', get_prop payload ''args'') of
                  (Some tool, Some args) \<Rightarrow> dispatch rt tool args w
                | _ \<Rightarrow> w)
          else if prefix ''Gemini API Error:'' reply
          then emit (Console_error [Txt reply]) w
          else push \<lparr>role = Model, name = None, content = reply\<rparr> w)"

text \<open>
  \<open>handleInput\<close>, lines 132 to 169. The result is the value the returned promise is rejected
  with, if it is rejected, and the new state. The call of the model (line 135) is outside
  the \<open>try\<close> block that starts at line 138.
\<close>

definition handleInput :: "runtime \<Rightarrow> string \<Rightarrow> world \<Rightarrow> js_exn option \<times> world" where
  "handleInput rt input w =
     (let w1 = push \<lparr>role = User, name = None, content = input\<rparr> w in
      case chatWithGemini rt w1 of
        (Inl e, w2) \<Rightarrow> (Some e, w2)
      | (Inr reply, w2) \<Rightarrow>
          (None, handle_reply rt reply
                   (emit (Console_log [Txt ([CHR 0x0A] @ glyph_robot @ '' Gemini:''), Txt reply,
                                       Txt [CHR 0x0A]]) w2)))"

text \<open>
  \<open>promptLoop\<close>, lines 183 to 192, run on the lines the terminal delivers. The loop asks for
  the next line only after \<open>handleInput\<close> has returned: when the promise of \<open>handleInput\<close> is
  rejected, line 190 is not reached, nothing catches the rejection, and no further line
  is read.
\<close>

datatype loop_state = Closed | AwaitingInput | Unhandled_rejection js_exn

fun promptLoop :: "runtime \<Rightarrow> string list \<Rightarrow> world \<Rightarrow> loop_state \<times> world" where
  "promptLoop rt [] w = (AwaitingInput, w)"
| "promptLoop rt (input # rest) w =
     (if toLowerCase (trim input) = ''exit'' then (Closed, w)
      else case handleInput rt input w of
             (Some e, w1) \<Rightarrow> (Unhandled_rejection e, w1)
           | (None, w1) \<Rightarrow> promptLoop rt rest w1)"

subsection \<open>A concrete environment for the examples\<close>

text \<open>
  The general theorems below hold for every \<open>runtime\<close>. The examples run the program in the
  environment \<open>sample_runtime\<close>, which agrees with JavaScript on a fragment: JSON texts made
  of objects, arrays, strings without escapes, integers and the three literals; regular
  expressions made of ordinary characters and the dot; replacement texts with the patterns
  for a match without groups. Outside the fragment its functions report an error, and no
  example goes there.
\<close>

definition json_ws :: "char \<Rightarrow> bool" where
  "json_ws c = (c = CHR '' '' \<or> c = CHR 0x09 \<or> c = CHR 0x0A \<or> c = CHR 0x0D)"

definition skip_ws :: "string \<Rightarrow> string" where
  "skip_ws s = dropWhile json_ws s"

definition is_digit :: "char \<Rightarrow> bool" where
  "is_digit c = (let n = (of_char c :: nat) in 48 \<le> n \<and> n \<le> 57)"

definition digits_value :: "string \<Rightarrow> int" where
  "digits_value ds = foldl (\<lambda>a c. 10 * a + (int (of_char c) - 48)) 0 ds"

fun parse_string_body :: "string \<Rightarrow> (string \<times> string) option" where
  "parse_string_body [] = None"
| "parse_string_body (c # cs) =
     (if c = CHR 0x22 then Some ([], cs)
      else if c = CHR 0x5C \<or> (of_char c :: nat) < 32 then None
      else case parse_string_body cs of
             None \<Rightarrow> None
           | Some (str, r) \<Rightarrow> Some (c # str, r))"

definition parse_number :: "string \<Rightarrow> (json \<times> string) option" where
  "parse_number s =
     (let neg = (s \<noteq> [] \<and> hd s = CHR ''-'');
          body = (if neg then tl s else s);
          ds = takeWhile is_digit body;
          r = dropWhile is_digit body
      in if ds = [] \<or> (1 < length ds \<and> hd ds = CHR ''0'') then None
         else if r \<noteq> [] \<and> hd r \<in> {CHR ''.'', CHR ''e'', CHR ''E''} then None
         else Some (JNum (if neg then - digits_value ds else digits_value ds), r))"

fun parse_value :: "nat \<Rightarrow> string \<Rightarrow> (json \<times> string) option"
  and parse_elems :: "nat \<Rightarrow> string \<Rightarrow> (json list \<times> string) option"
  and parse_members :: "nat \<Rightarrow> string \<Rightarrow> ((string \<times> json) list \<times> string) option" where
  "parse_value 0 s = None"
| "parse_value (Suc n) s =
     (case s of
        [] \<Rightarrow> None
      | c # cs \<Rightarrow>
          if c = CHR 0x22 then
            (case parse_string_body cs of None \<Rightarrow> None | Some (str, r) \<Rightarrow> Some (JStr str, r))
          else if c = CHR ''['' then
            (case skip_ws cs of
               [] \<Rightarrow> None
             | d # r \<Rightarrow>
                 if d = CHR '']'' then Some (JArr [], r)
                 else (case parse_elems n (d # r) of None \<Rightarrow> None | Some (xs, r') \<Rightarrow> Some (JArr xs, r')))
          else if c = CHR ''{'' then
            (case skip_ws cs of
               [] \<Rightarrow> None
             | d # r \<Rightarrow>
                 if d = CHR ''}'' then Some (JObj [], r)
                 else (case parse_members n (d # r) of None \<Rightarrow> None | Some (kvs, r') \<Rightarrow> Some (JObj kvs, r')))
          else if prefix ''null'' s then Some (JNull, drop 4 s)
          else if prefix ''true'' s then Some (JBool True, drop 4 s)
          else if prefix ''false'' s then Some (JBool False, drop 5 s)
          else parse_number s)"
| "parse_elems 0 s = None"
| "parse_elems (Suc n) s =
     (case parse_value n s of
        None \<Rightarrow> None
      | Some (v, r) \<Rightarrow>
          (case skip_ws r of
             [] \<Rightarrow> None
           | d # r' \<Rightarrow>
               if d = CHR '']'' then Some ([v], r')
               else if d = CHR '','' then
                 (case parse_elems n (skip_ws r') of None \<Rightarrow> None | Some (vs, r'') \<Rightarrow> Some (v # vs, r''))
               else None))"
| "parse_members 0 s = None"
| "parse_members (Suc n) s =
     (case s of
        [] \<Rightarrow> None
      | q # cs \<Rightarrow>
          if q \<noteq> CHR 0x22 then None
          else (case parse_string_body cs of
                  None \<Rightarrow> None
                | Some (k, r) \<Rightarrow>
                    (case skip_ws r of
                       [] \<Rightarrow> None
                     | colon # r1 \<Rightarrow>
                         if colon \<noteq> CHR '':'' then None
                         else (case parse_value n (skip_ws r1) of
                                 None \<Rightarrow> None
                               | Some (v, r2) \<Rightarrow>
                                   (case skip_ws r2 of
                                      [] \<Rightarrow> None
                                    | d # r3 \<Rightarrow>
                                        if d = CHR ''}'' then Some ([(k, v)], r3)
                                        else if d = CHR '','' then
                                          (case parse_members n (skip_ws r3) of
                                             None \<Rightarrow> None
                                           | Some (kvs, r4) \<Rightarrow> Some ((k, v) # kvs, r4))
                                        else None)))))"

definition sample_JSON_parse :: "string \<Rightarrow> js_exn + json" where
  "sample_JSON_parse s =
     (case parse_value (Suc (length s)) (skip_ws s) of
        None \<Rightarrow> Inl (SyntaxError ''Unexpected token'')
      | Some (v, r) \<Rightarrow> if skip_ws r = [] then Inr v else Inl (SyntaxError ''Unexpected token''))"

definition regex_syntax_chars :: "string" where
  "regex_syntax_chars = [CHR 0x5C, CHR ''^'', CHR ''$'', CHR ''.'', CHR ''*'', CHR ''+'', CHR ''?'',
     CHR ''('', CHR '')'', CHR ''['', CHR '']'', CHR ''{'', CHR ''}'', CHR ''|'']"

fun match_here :: "string \<Rightarrow> string \<Rightarrow> bool" where
  "match_here [] s = True"
| "match_here (p # ps) [] = False"
| "match_here (p # ps) (c # cs) =
     ((if p = CHR ''.'' then c \<noteq> CHR 0x0A \<and> c \<noteq> CHR 0x0D else p = c) \<and> match_here ps cs)"

definition sample_matcher :: "string \<Rightarrow> matcher" where
  "sample_matcher pat s i =
     (if i \<le> length s \<and> match_here pat (drop i s) then Some (i + length pat, []) else None)"

definition sample_RegExp_g :: "string \<Rightarrow> js_exn + matcher" where
  "sample_RegExp_g pat =
     (if list_all (\<lambda>c. c = CHR ''.'' \<or> c \<notin> set regex_syntax_chars) pat
      then Inr (sample_matcher pat)
      else Inl (SyntaxError ''Invalid regular expression''))"

fun expand_dollars :: "string \<Rightarrow> string \<Rightarrow> string \<Rightarrow> string \<Rightarrow> string" where
  "expand_dollars pre matched post [] = []"
| "expand_dollars pre matched post [c] = [c]"
| "expand_dollars pre matched post (c # d # cs) =
     (if c \<noteq> CHR ''$'' then c # expand_dollars pre matched post (d # cs)
      else if d = CHR ''$'' then CHR ''$'' # expand_dollars pre matched post cs
      else if d = CHR ''&'' then matched @ expand_dollars pre matched post cs
      else if d = CHR 0x60 then pre @ expand_dollars pre matched post cs
      else if d = CHR 0x27 then post @ expand_dollars pre matched post cs
      else c # expand_dollars pre matched post (d # cs))"

definition sample_GetSubstitution :: "string \<Rightarrow> nat \<Rightarrow> nat \<Rightarrow> string option list \<Rightarrow> string \<Rightarrow> string" where
  "sample_GetSubstitution s i e caps rep = expand_dollars (take i s) (take (e - i) (drop i s)) (drop e s) rep"

definition sample_shell :: "string \<Rightarrow> filesystem \<Rightarrow> (string + string) \<times> filesystem" where
  "sample_shell c fs =
     (if prefix ''echo '' c then (Inr (drop 5 c @ [CHR 0x0A]), fs)
      else (Inl (''/bin/sh: 1: '' @ c @ '': not found'' @ [CHR 0x0A]), fs))"

definition sample_runtime :: "(api_failure + string) \<Rightarrow> runtime" where
  "sample_runtime answer =
     \<lparr>gemini = (\<lambda>conv. answer), JSON_parse = sample_JSON_parse, RegExp_g = sample_RegExp_g,
      GetSubstitution = sample_GetSubstitution, shell = sample_shell\<rparr>"

definition sample_world :: "filesystem \<Rightarrow> world" where
  "sample_world fs = \<lparr>files = fs, conversation = [], trace = []\<rparr>"

subsection \<open>The fence stripping as the specification words it\<close>

text \<open>
  The specification's wording of the stripping step, for comparison with \<open>strip_fences\<close>:
  a leading \<open>```json\<close> is removed if present, then a trailing \<open>```\<close> is removed if present.
\<close>

definition strip_surrounding_spec :: "string \<Rightarrow> string" where
  "strip_surrounding_spec reply =
     (let s = (if prefix ''```json'' reply then drop 7 reply else reply)
      in if suffix ''```'' s then take (length s - 3) s else s)"

subsection \<open>Kinds of reply\<close>

text \<open>
  A reply has the required shape when its stripped text parses to a value that has a truthy
  \<open>tool\<close> and a truthy \<open>args\<close> (line 141). A reply is a JSON value without the shape when
  it parses, to something other than \<open>null\<close>, and the test of line 141 fails.
\<close>

definition has_tool_shape :: "runtime \<Rightarrow> string \<Rightarrow> bool" where
  "has_tool_shape rt reply =
     (case JSON_parse rt (strip_fences reply) of
        Inl err \<Rightarrow> False
      | Inr payload \<Rightarrow>
          payload \<noteq> JNull \<and> truthy (get_prop payload ''tool'') \<and> truthy (get_prop payload ''args''))"

definition json_without_shape :: "runtime \<Rightarrow> string \<Rightarrow> bool" where
  "json_without_shape rt reply =
     (case JSON_parse rt (strip_fences reply) of
        Inl err \<Rightarrow> False
      | Inr payload \<Rightarrow>
          payload \<noteq> JNull \<and> \<not> (truthy (get_prop payload ''tool'') \<and> truthy (get_prop payload ''args'')))"

definition user_turn :: "string \<Rightarrow> turn" where
  "user_turn input = \<lparr>role = User, name = None, content = input\<rparr>"

definition tool_events :: "world \<Rightarrow> event list" where
  "tool_events w = filter is_tool_event (trace w)"

text \<open>The state in which line 146 calls the handler: the user turn has been appended, the
  request sent, the reply and the announcement of the tool written to the console.\<close>

definition before_tool :: "string \<Rightarrow> string \<Rightarrow> json \<Rightarrow> json \<Rightarrow> world \<Rightarrow> world" where
  "before_tool input reply tool args w =
     emit (Console_log [Txt (glyph_tools @ '' Running tool '' @ dq @ to_string tool @ dq
                               @ '' with args:''), Val (Some args)])
       (emit (Console_log [Txt ([CHR 0x0A] @ glyph_robot @ '' Gemini:''), Txt reply, Txt [CHR 0x0A]])
          (emit (Axios_post (conversation w @ [user_turn input])) (push (user_turn input) w)))"

text \<open>The content of the tool turn for an outcome of the handler (lines 148 and 154).\<close>

definition tool_turn_content :: "js_exn + string \<Rightarrow> string" where
  "tool_turn_content res = (case res of Inr result \<Rightarrow> result | Inl err \<Rightarrow> ''Error: '' @ exn_to_string err)"

subsection \<open>Conditions on the file system\<close>



text \<open>No regular file stands where \<open>mkdirSync\<close> needs a directory.\<close>

definition no_file_in_the_way :: "filesystem \<Rightarrow> string \<Rightarrow> bool" where
  "no_file_in_the_way fs d = list_all (\<lambda>x. case map_of fs x of Some (File c) \<Rightarrow> False | _ \<Rightarrow> True) (mkdir_targets d)"

subsection \<open>Replies used in the examples\<close>

definition quoted :: "string \<Rightarrow> string" where
  "quoted s = dq @ s @ dq"

text \<open>The reply \<open>{"tool":"list_files","args":{}}\<close>.\<close>

definition reply_list_files :: string where
  "reply_list_files = ''{'' @ quoted ''tool'' @ '':'' @ quoted ''list_files'' @ '','' @ quoted ''args'' @ '':{}}''"

text \<open>The reply \<open>{"tool":"read_file","args":{"path":"nope.txt"}}\<close>.\<close>

definition reply_read_missing :: string where
  "reply_read_missing = ''{'' @ quoted ''tool'' @ '':'' @ quoted ''read_file'' @ '','' @ quoted ''args''
     @ '':{'' @ quoted ''path'' @ '':'' @ quoted ''nope.txt'' @ ''}}''"

section \<open>Properties\<close>

subsection \<open>Replacing the first occurrence\<close>

lemma replace_first_none: "\<not> sublist pat s \<Longrightarrow> replace_first pat rep s = s"
  by (induction s) (auto simp: sublist_Cons_right)

lemma prefix_shorter: "prefix a (b @ c) \<Longrightarrow> length a \<le> length b \<Longrightarrow> prefix a b"
  by (auto simp: prefix_def append_eq_append_conv2) 

lemma replace_first_at:
  assumes "pat \<noteq> []"
  shows "\<not> sublist pat (u @ butlast pat) \<Longrightarrow> replace_first pat rep (u @ pat @ v) = u @ rep @ v"
proof (induction u)
  case Nil
  from assms obtain p ps where pat: "pat = p # ps" by (cases pat) auto
  have "replace_first pat rep (p # ps @ v) = rep @ drop (length pat) (p # ps @ v)"
    unfolding pat by simp
  then show ?case by (simp add: pat)
next
  case (Cons c u)
  have np: "\<not> prefix pat (c # u @ butlast pat)" and ns: "\<not> sublist pat (u @ butlast pat)"
    using Cons.prems by (simp_all add: sublist_Cons_right)
  have "\<not> prefix pat (c # u @ pat @ v)"
  proof
    assume "prefix pat (c # u @ pat @ v)"
    moreover have "c # u @ pat @ v = (c # u @ butlast pat) @ (last pat # v)"
      using assms by simp
    moreover have "length pat \<le> length (c # u @ butlast pat)" by simp
    ultimately have "prefix pat (c # u @ butlast pat)"
      using prefix_shorter by metis
    with np show False ..
  qed
  then show ?case using Cons.IH [OF ns] by simp
qed

subsection \<open>C5: what the stripping step removes\<close>

text \<open>
  Claim C5 says that at most one leading \<open>```json\<close> marker and at most one trailing \<open>```\<close>
  marker are stripped and nothing else is altered. The code removes the first occurrence of
  \<open>```json\<close> wherever it stands and then the first occurrence of \<open>```\<close> wherever it stands in
  what is left. On the reply \<open>x```y```\<close> the marker in the middle goes and the trailing one
  stays, where the claim keeps the middle and drops the trailing one.
\<close>

theorem strip_fences_counterexample:
  "strip_fences ''x```y```'' = ''xy```'' \<and> strip_surrounding_spec ''x```y```'' = ''x```y''"
  by (simp add: strip_fences_def strip_surrounding_spec_def suffix_def)


text \<open>
  C5, amended: the first occurrence of \<open>```json\<close> anywhere in the reply, if there is one, is
  removed; then the first occurrence of \<open>```\<close> anywhere in the remaining text, if there is
  one, is removed; no other part of the reply is altered. The four cases are: no marker at
  all; only a \<open>```\<close>; a \<open>```json\<close> and then no \<open>```\<close> left; both.
\<close>

theorem strip_fences_first_occurrences:
  "(\<not> sublist ''```'' reply \<longrightarrow> strip_fences reply = reply) \<and>
   (\<forall>u v. \<not> sublist ''```json'' reply \<and> reply = u @ ''```'' @ v \<and> \<not> sublist ''```'' (u @ ''``'')
      \<longrightarrow> strip_fences reply = u @ v) \<and>
   (\<forall>u v. reply = u @ ''```json'' @ v \<and> \<not> sublist ''```json'' (u @ ''```jso'')
        \<and> \<not> sublist ''```'' (u @ v)
      \<longrightarrow> strip_fences reply = u @ v) \<and>
   (\<forall>u v x y. reply = u @ ''```json'' @ v \<and> \<not> sublist ''```json'' (u @ ''```jso'')
        \<and> u @ v = x @ ''```'' @ y \<and> \<not> sublist ''```'' (x @ ''``'')
      \<longrightarrow> strip_fences reply = x @ y)"
proof (intro conjI allI impI)
  assume h: "\<not> sublist ''```'' reply"
  have "sublist ''```'' ''```json''" by (simp add: sublist_code)
  then have "\<not> sublist ''```json'' reply"
    using h sublist_order.order_trans by blast
  then show "strip_fences reply = reply"
    using h by (simp add: strip_fences_def replace_first_none)
next
  fix u v
  assume h: "\<not> sublist ''```json'' reply \<and> reply = u @ ''```'' @ v \<and> \<not> sublist ''```'' (u @ ''``'')"
  then have n: "\<not> sublist ''```json'' reply" and r: "reply = u @ ''```'' @ v"
    and f0: "\<not> sublist ''```'' (u @ ''``'')" by blast+
  from f0 have f: "\<not> sublist ''```'' (u @ butlast ''```'')" by simp
  have "replace_first ''```json'' [] reply = reply"
    using n by (rule replace_first_none)
  moreover have "replace_first ''```'' [] (u @ ''```'' @ v) = u @ [] @ v"
    using f by (intro replace_first_at) simp_all
  ultimately show "strip_fences reply = u @ v"
    unfolding strip_fences_def r by simp
next
  fix u v
  assume h: "reply = u @ ''```json'' @ v \<and> \<not> sublist ''```json'' (u @ ''```jso'') \<and> \<not> sublist ''```'' (u @ v)"
  then have r: "reply = u @ ''```json'' @ v" and j0: "\<not> sublist ''```json'' (u @ ''```jso'')"
    and n: "\<not> sublist ''```'' (u @ v)" by blast+
  from j0 have j: "\<not> sublist ''```json'' (u @ butlast ''```json'')" by simp
  have "replace_first ''```json'' [] (u @ ''```json'' @ v) = u @ [] @ v"
    using j by (intro replace_first_at) simp_all
  moreover have "replace_first ''```'' [] (u @ v) = u @ v"
    using n by (rule replace_first_none)
  ultimately show "strip_fences reply = u @ v"
    unfolding strip_fences_def r by simp
next
  fix u v x y
  assume h: "reply = u @ ''```json'' @ v \<and> \<not> sublist ''```json'' (u @ ''```jso'')
        \<and> u @ v = x @ ''```'' @ y \<and> \<not> sublist ''```'' (x @ ''``'')"
  then have r: "reply = u @ ''```json'' @ v" and j0: "\<not> sublist ''```json'' (u @ ''```jso'')"
    and e: "u @ v = x @ ''```'' @ y" and f0: "\<not> sublist ''```'' (x @ ''``'')" by blast+
  from j0 have j: "\<not> sublist ''```json'' (u @ butlast ''```json'')" by simp
  from f0 have f: "\<not> sublist ''```'' (x @ butlast ''```'')" by simp
  have "replace_first ''```json'' [] (u @ ''```json'' @ v) = u @ [] @ v"
    using j by (intro replace_first_at) simp_all
  then have "replace_first ''```json'' [] reply = x @ ''```'' @ y"
    unfolding r using e by simp
  moreover have "replace_first ''```'' [] (x @ ''```'' @ y) = x @ [] @ y"
    using f by (intro replace_first_at) simp_all
  ultimately show "strip_fences reply = x @ y"
    unfolding strip_fences_def by simp
qed

theorem strip_fences_first_occurrences_witness:
  "\<not> sublist ''```json'' ([] @ ''```jso'') \<and> \<not> sublist ''```'' (''{}'' @ ''``'')
   \<and> strip_fences ''```json{}```'' = ''{}''"
proof -
  have a: "\<not> sublist ''```json'' ([] @ ''```jso'')" by (simp add: sublist_code)
  have b: "\<not> sublist ''```'' (''{}'' @ ''``'')" by (simp add: sublist_code)
  have c: "''```json{}```'' = [] @ ''```json'' @ ''{}```''" by simp
  have d: "[] @ ''{}```'' = ''{}'' @ ''```'' @ []" by simp
  from strip_fences_first_occurrences [of "''```json{}```''"] a b c d
  have "strip_fences ''```json{}```'' = ''{}'' @ []" by blast
  with a b show ?thesis by simp
qed

subsection \<open>The state after console output and after a turn\<close>

lemma emit_simps:
  "files (emit e w) = files w" "conversation (emit e w) = conversation w"
  "trace (emit e w) = trace w @ [e]"
  by (simp_all add: emit_def)

lemma push_simps:
  "files (push t w) = files w" "conversation (push t w) = conversation w @ [t]"
  "trace (push t w) = trace w"
  by (simp_all add: push_def)

lemma tool_events_emit:
  "tool_events (emit e w) = tool_events w @ (if is_tool_event e then [e] else [])"
  by (simp add: tool_events_def emit_def)

lemma tool_events_push: "tool_events (push t w) = tool_events w"
  by (simp add: tool_events_def push_def)

lemma is_tool_event_simps:
  "\<not> is_tool_event (Console_log xs)" "\<not> is_tool_event (Console_error xs)"
  "\<not> is_tool_event (Axios_post c)" "is_tool_event (Fs_readdirSync d)"
  "is_tool_event (Fs_readFileSync p)" "is_tool_event (Fs_writeFileSync p x)"
  "is_tool_event (Fs_mkdirSync d)" "is_tool_event (Child_exec p)"
  by (simp_all add: is_tool_event_def is_fs_event_def)

lemma chatWithGemini_ok:
  "gemini rt (conversation w) = Inr text \<Longrightarrow>
   chatWithGemini rt w = (Inr (trim text), emit (Axios_post (conversation w)) w)"
  by (simp add: chatWithGemini_def)

lemma chatWithGemini_fail:
  assumes "gemini rt (conversation w) = Inl (Api_failure ename msg resp)"
  shows "\<exists>w'. chatWithGemini rt w = (Inl (Thrown_Error ename msg), w')
           \<and> conversation w' = conversation w \<and> files w' = files w
           \<and> tool_events w' = tool_events w
           \<and> Console_error [Txt (glyph_cross @ '' Gemini API Error: '' @ msg)] \<in> set (trace w')"
  using assms
  by (cases resp) (auto simp: chatWithGemini_def Let_def emit_simps tool_events_emit is_tool_event_simps)

lemma handleInput_ok:
  assumes "gemini rt (conversation w @ [user_turn input]) = Inr text"
  shows "handleInput rt input w =
     (None, handle_reply rt (trim text)
        (emit (Console_log [Txt ([CHR 0x0A] @ glyph_robot @ '' Gemini:''), Txt (trim text), Txt [CHR 0x0A]])
           (emit (Axios_post (conversation w @ [user_turn input])) (push (user_turn input) w))))"
proof -
  have "gemini rt (conversation (push (user_turn input) w)) = Inr text"
    using assms by (simp add: push_simps)
  from chatWithGemini_ok [OF this] show ?thesis
    by (simp add: handleInput_def user_turn_def [symmetric] push_simps)
qed

lemma handle_reply_no_shape:
  assumes "\<not> has_tool_shape rt reply"
  shows "files (handle_reply rt reply w) = files w"
    and "tool_events (handle_reply rt reply w) = tool_events w"
    and "json_without_shape rt reply \<Longrightarrow> \<not> prefix ''Gemini API Error:'' reply \<Longrightarrow>
         handle_reply rt reply w = push \<lparr>role = Model, name = None, content = reply\<rparr> w"
  using assms
  by (auto simp: has_tool_shape_def json_without_shape_def handle_reply_def emit_simps push_simps
       tool_events_emit tool_events_push is_tool_event_simps split: sum.splits)

subsection \<open>C1: replies without the tool shape\<close>

text \<open>
  Claim C1 says that every reply that fails to parse as the required shape is appended as one
  model turn whose content is the fence-stripped reply text, and that no tool runs. The turn
  appended at line 164 holds \<open>reply\<close>, the text as received, not the stripped
  \<open>jsonReply\<close>: the fenced reply \<open>```json{}```\<close> parses to an empty object, which lacks the
  shape, and is recorded with its fences, while its stripped text is \<open>{}\<close>.
\<close>

theorem fenced_reply_recorded_with_fences:
  "\<not> has_tool_shape (sample_runtime (Inr ''```json{}```'')) ''```json{}```''
   \<and> conversation (snd (handleInput (sample_runtime (Inr ''```json{}```'')) ''hi'' (sample_world [])))
       = [user_turn ''hi'', \<lparr>role = Model, name = None, content = ''```json{}```''\<rparr>]
   \<and> strip_fences ''```json{}```'' = ''{}''"
  by code_simp

text \<open>
  C1, amended: for every reply without the required shape, \<open>handleInput\<close> returns normally
  and no tool handler executes (the files and the calls of \<open>fs\<close> and \<open>exec\<close> are as before);
  when moreover the stripped reply parses as JSON, to a value other than \<open>null\<close>, and the
  reply does not start with \<open>Gemini API Error:\<close>, exactly one model turn is appended after
  the user turn, and its content is the reply text as received (trimmed, fences included).
\<close>

theorem plain_json_reply_recorded_verbatim:
  assumes "gemini rt (conversation w @ [user_turn input]) = Inr text"
    and "\<not> has_tool_shape rt (trim text)"
  shows "\<exists>w'. handleInput rt input w = (None, w')
           \<and> files w' = files w \<and> tool_events w' = tool_events w
           \<and> (json_without_shape rt (trim text) \<and> \<not> prefix ''Gemini API Error:'' (trim text) \<longrightarrow>
                conversation w' = conversation w @
                  [user_turn input, \<lparr>role = Model, name = None, content = trim text\<rparr>])"
  using handle_reply_no_shape [OF assms(2)]
  by (simp add: handleInput_ok [OF assms(1)] emit_simps push_simps tool_events_emit
        tool_events_push is_tool_event_simps)



theorem plain_json_reply_recorded_verbatim_witness:
  "gemini (sample_runtime (Inr ''  ```json{}```  '')) (conversation (sample_world []) @ [user_turn ''hi''])
     = Inr ''  ```json{}```  ''
   \<and> \<not> has_tool_shape (sample_runtime (Inr ''  ```json{}```  '')) (trim ''  ```json{}```  '')
   \<and> json_without_shape (sample_runtime (Inr ''  ```json{}```  '')) (trim ''  ```json{}```  '')
   \<and> \<not> prefix ''Gemini API Error:'' (trim ''  ```json{}```  '')
   \<and> (\<exists>w'. handleInput (sample_runtime (Inr ''  ```json{}```  '')) ''hi'' (sample_world []) = (None, w')
        \<and> files w' = [] \<and> tool_events w' = []
        \<and> conversation w' = [user_turn ''hi'', \<lparr>role = Model, name = None, content = ''```json{}```''\<rparr>])"
proof -
  let ?rt = "sample_runtime (Inr ''  ```json{}```  '')"
  have a: "gemini ?rt (conversation (sample_world []) @ [user_turn ''hi'']) = Inr ''  ```json{}```  ''"
    by (simp add: sample_runtime_def)
  have b: "\<not> has_tool_shape ?rt (trim ''  ```json{}```  '')" by code_simp
  have c: "json_without_shape ?rt (trim ''  ```json{}```  '')" by code_simp
  have d: "\<not> prefix ''Gemini API Error:'' (trim ''  ```json{}```  '')" by code_simp
  have e: "trim ''  ```json{}```  '' = ''```json{}```''" by code_simp
  have f: "files (sample_world []) = []" "tool_events (sample_world []) = []"
    "conversation (sample_world []) = []"
    by (simp_all add: sample_world_def tool_events_def)
  from plain_json_reply_recorded_verbatim [OF a b] c d e f
  show ?thesis using a b by auto
qed

subsection \<open>C2: a failure of the model client\<close>

text \<open>
  When the request fails, \<open>chatWithGemini\<close> writes the error to the console and throws it
  again; \<open>handleInput\<close> calls it outside its \<open>try\<close> block, so the promise of \<open>handleInput\<close> is
  rejected and \<open>promptLoop\<close> does not reach its next call of itself.
\<close>

lemma promptLoop_api_failure:
  assumes "toLowerCase (trim input) \<noteq> ''exit''"
    and "gemini rt (conversation w @ [user_turn input]) = Inl (Api_failure ename msg resp)"
  shows "\<exists>w'. promptLoop rt (input # rest) w = (Unhandled_rejection (Thrown_Error ename msg), w')
           \<and> conversation w' = conversation w @ [user_turn input]
           \<and> Console_error [Txt (glyph_cross @ '' Gemini API Error: '' @ msg)] \<in> set (trace w')"
proof -
  have "gemini rt (conversation (push (user_turn input) w)) = Inl (Api_failure ename msg resp)"
    using assms(2) by (simp add: push_simps)
  from chatWithGemini_fail [OF this] obtain w' where
    w': "chatWithGemini rt (push (user_turn input) w) = (Inl (Thrown_Error ename msg), w')"
      "conversation w' = conversation (push (user_turn input) w)"
      "Console_error [Txt (glyph_cross @ '' Gemini API Error: '' @ msg)] \<in> set (trace w')"
    by blast
  then have "handleInput rt input w = (Some (Thrown_Error ename msg), w')"
    by (simp add: handleInput_def user_turn_def [symmetric])
  then show ?thesis using assms(1) w' by (simp add: push_simps)
qed

text \<open>
  Claim C2 says that after a failed call of the model the error is logged, no model turn is
  appended and the loop accepts the next line. Run on the two lines \<open>hi\<close> and \<open>list files\<close>
  with a failing request, the program logs the error and appends no model turn, but the loop
  stops with the unhandled rejection: the second line is never read and no second request
  is sent.
\<close>

theorem api_failure_ends_prompt_loop:
  "promptLoop (sample_runtime (Inl (Api_failure ''AxiosError'' ''Network Error'' None)))
      [''hi'', ''list files''] (sample_world [])
   = (Unhandled_rejection (Thrown_Error ''AxiosError'' ''Network Error''),
      \<lparr>files = [], conversation = [user_turn ''hi''],
       trace = [Axios_post [user_turn ''hi''],
                Console_error [Txt (glyph_cross @ '' Gemini API Error: Network Error'')]]\<rparr>)"
  by code_simp

subsection \<open>C4: the argument check of \<open>edit_file\<close>\<close>

text \<open>
  Claim C4 says that \<open>edit_file\<close> fails with the argument error, before any file is touched,
  whenever \<open>path\<close>, \<open>oldStr\<close> or \<open>newStr\<close> is missing or not a string. Line 32 tests \<open>path\<close>
  for truthiness only: with the number 5 for \<open>path\<close> the check passes,
  \<open>fs.readFileSync\<close> is called, and the failure is the one of the read.
\<close>

theorem edit_file_truthy_path_counterexample:
  "\<not> is_string (Some (JNum 5))
   \<and> edit_file (sample_runtime (Inr [])) (JObj [(''path'', JNum 5), (''oldStr'', JStr ''a''), (''newStr'', JStr ''b'')])
        (sample_world [(''f'', File ''a-a-a'')])
     = (Inl (Thrown_Error ''Error'' ''EBADF, read''),
        \<lparr>files = [(''f'', File ''a-a-a'')], conversation = [], trace = [Fs_readFileSync (Some (JNum 5))]\<rparr>)"
  by code_simp

text \<open>
  C4, amended: whenever \<open>path\<close> is missing or falsy (absent, \<open>null\<close>, \<open>false\<close>, \<open>0\<close> or the
  empty string), or \<open>oldStr\<close> or \<open>newStr\<close> is missing or not a string, \<open>edit_file\<close> fails
  with the error of line 33 and the state is untouched: no call of \<open>fs\<close> has been made.
\<close>

theorem edit_file_argument_guard:
  assumes "\<not> truthy (get_prop args ''path'') \<or> \<not> is_string (get_prop args ''oldStr'')
           \<or> \<not> is_string (get_prop args ''newStr'')"
  shows "edit_file rt args w =
           (Inl (invalid_arguments (get_prop args ''path'') (get_prop args ''oldStr'') (get_prop args ''newStr'')), w)"
  using assms by (auto simp: edit_file_def Let_def)

theorem edit_file_argument_guard_witness:
  "\<not> is_string (get_prop (JObj [(''path'', JStr ''f''), (''oldStr'', JNum 1), (''newStr'', JStr ''b'')]) ''oldStr'')
   \<and> edit_file (sample_runtime (Inr [])) (JObj [(''path'', JStr ''f''), (''oldStr'', JNum 1), (''newStr'', JStr ''b'')])
        (sample_world [(''f'', File ''a-a-a'')])
     = (Inl (Thrown_Error ''Error'' ''Missing or invalid arguments. Got: path=f, oldStr=1, newStr=b''),
        sample_world [(''f'', File ''a-a-a'')])"
proof -
  let ?args = "JObj [(''path'', JStr ''f''), (''oldStr'', JNum 1), (''newStr'', JStr ''b'')]"
  have a: "\<not> is_string (get_prop ?args ''oldStr'')" by simp
  then have "\<not> truthy (get_prop ?args ''path'') \<or> \<not> is_string (get_prop ?args ''oldStr'')
           \<or> \<not> is_string (get_prop ?args ''newStr'')" by blast
  from edit_file_argument_guard [OF this, of "sample_runtime (Inr [])" "sample_world [(''f'', File ''a-a-a'')]"]
  have "edit_file (sample_runtime (Inr [])) ?args (sample_world [(''f'', File ''a-a-a'')])
     = (Inl (invalid_arguments (get_prop ?args ''path'') (get_prop ?args ''oldStr'') (get_prop ?args ''newStr'')),
        sample_world [(''f'', File ''a-a-a'')])" .
  moreover have "invalid_arguments (get_prop ?args ''path'') (get_prop ?args ''oldStr'') (get_prop ?args ''newStr'')
     = Thrown_Error ''Error'' ''Missing or invalid arguments. Got: path=f, oldStr=1, newStr=b''"
    by code_simp
  ultimately show ?thesis using a by simp
qed

subsection \<open>The tool handlers leave the conversation alone\<close>

lemma readFileSync_conv: "conversation (snd (readFileSync p w)) = conversation w"
  by (simp add: readFileSync_def Let_def emit_simps split: option.splits json.splits node.splits)

lemma writeFileSync_conv: "conversation (snd (writeFileSync p d w)) = conversation w"
  by (simp add: writeFileSync_def Let_def emit_simps split: option.splits json.splits)

lemma mkdirSync_conv: "conversation (snd (mkdirSync d w)) = conversation w"
  by (simp add: mkdirSync_def Let_def emit_simps split: prod.splits)

lemma readFileSync_convD: "readFileSync p w = (r, w') \<Longrightarrow> conversation w' = conversation w"
  using readFileSync_conv [of p w] by simp

lemma writeFileSync_convD: "writeFileSync p d w = (r, w') \<Longrightarrow> conversation w' = conversation w"
  using writeFileSync_conv [of p d w] by simp

lemma mkdirSync_convD: "mkdirSync d w = (r, w') \<Longrightarrow> conversation w' = conversation w"
  using mkdirSync_conv [of d w] by simp

lemma func_conv: "conversation (snd (func rt t args w)) = conversation w"
proof (cases t)
  case List_files
  then show ?thesis
    by (simp add: func_def list_files_def readdirSync_cwd_def Let_def emit_simps)
next
  case Read_file
  then show ?thesis by (simp add: func_def read_file_def readFileSync_conv)
next
  case Edit_file
  have "conversation (snd (edit_file rt args w)) = conversation w"
    by (auto simp: edit_file_def Let_def split: prod.splits sum.splits option.splits
          dest!: readFileSync_convD writeFileSync_convD)
  with Edit_file show ?thesis by (simp add: func_def)
next
  case Create_file
  have "conversation (snd (create_file args w)) = conversation w"
  proof (cases "get_prop args ''path''")
    case None
    then show ?thesis by (simp add: create_file_def)
  next
    case (Some j)
    show ?thesis
    proof (cases j)
      case (JStr p)
      with Some show ?thesis
        by (auto simp: create_file_def Let_def split: prod.splits option.splits
              dest!: mkdirSync_convD writeFileSync_convD)
    qed (use Some in \<open>simp_all add: create_file_def\<close>)
  qed
  with Create_file show ?thesis by (simp add: func_def)
next
  case Exec
  then show ?thesis
    by (simp add: func_def exec_def Let_def emit_simps split: option.splits json.splits prod.splits sum.splits)
qed

lemma call_func_conv: "conversation (snd (call_func rt entry args w)) = conversation w"
  by (cases entry) (simp_all add: call_func_def func_conv)

lemma before_tool_simps:
  "files (before_tool input reply tool args w) = files w"
  "conversation (before_tool input reply tool args w) = conversation w @ [user_turn input]"
  "tool_events (before_tool input reply tool args w) = tool_events w"
  by (simp_all add: before_tool_def emit_simps push_simps tool_events_emit tool_events_push is_tool_event_simps)

lemma handleInput_dispatch:
  assumes g: "gemini rt (conversation w @ [user_turn input]) = Inr text"
    and p: "JSON_parse rt (strip_fences (trim text)) = Inr payload"
    and t: "get_prop payload ''tool'' = Some tool" "truthy (Some tool)"
    and a: "get_prop payload ''args'' = Some args" "truthy (Some args)"
    and e: "tools (to_string tool) = Some entry"
    and c: "call_func rt entry args (before_tool input (trim text) tool args w) = (res, w4)"
  shows "handleInput rt input w =
     (None, push \<lparr>role = Tool, name = Some tool, content = tool_turn_content res\<rparr>
        (emit (case res of
                 Inr result \<Rightarrow> Console_log [Txt (glyph_check @ '' Tool '' @ dq @ to_string tool @ dq
                                             @ '' result:'' @ [CHR 0x0A] @ result @ [CHR 0x0A])]
               | Inl err \<Rightarrow> Console_error [Txt (glyph_boom @ '' Tool '' @ dq @ to_string tool @ dq
                                               @ '' error:''), Exn err]) w4))"
proof -
  have n: "payload \<noteq> JNull" using t(1) by auto
  show ?thesis
    using p t a e c n
    by (cases res)
       (simp_all add: handleInput_ok [OF g] handle_reply_def dispatch_def before_tool_def
          tool_turn_content_def Let_def)
qed


lemma registered_tools: "registered T = Some t \<Longrightarrow> tools T = Some (Registered t) \<and> T \<noteq> []"
  by (auto simp: tools_def registered_def split: if_splits)

subsection \<open>C7: a reply that names a registered tool\<close>

text \<open>
  C7: for every reply that parses to an object whose \<open>tool\<close> field is the name \<open>T\<close> of a
  registered tool and whose \<open>args\<close> field is a truthy value \<open>A\<close> (every argument object is
  truthy), the dispatch loop calls the handler of \<open>T\<close> on \<open>A\<close> once: the files and the calls
  of \<open>fs\<close> and \<open>exec\<close> after the turn are those left by one run of that handler, started in
  a state with the files and calls of before; and exactly one tool turn, named \<open>T\<close>, is
  appended after the user turn, with the handler's result or its error text.
\<close>

theorem registered_tool_invoked_once:
  assumes g: "gemini rt (conversation w @ [user_turn input]) = Inr text"
    and p: "JSON_parse rt (strip_fences (trim text)) = Inr payload"
    and t: "get_prop payload ''tool'' = Some (JStr T)" "registered T = Some t"
    and a: "get_prop payload ''args'' = Some A" "truthy (Some A)"
  shows "\<exists>w'. handleInput rt input w = (None, w') \<and>
           (let called = before_tool input (trim text) (JStr T) A w;
                (res, w4) = func rt t A called
            in files called = files w \<and> tool_events called = tool_events w
               \<and> files w' = files w4 \<and> tool_events w' = tool_events w4
               \<and> conversation w' = conversation w @
                    [user_turn input, \<lparr>role = Tool, name = Some (JStr T), content = tool_turn_content res\<rparr>])"
proof -
  let ?called = "before_tool input (trim text) (JStr T) A w"
  obtain res w4 where f: "func rt t A ?called = (res, w4)" by (cases "func rt t A ?called")
  have tl: "tools (to_string (JStr T)) = Some (Registered t)" and tr: "truthy (Some (JStr T))"
    using registered_tools [OF t(2)] by simp_all
  have c: "call_func rt (Registered t) A ?called = (res, w4)"
    using f by (simp add: call_func_def)
  have cv: "conversation w4 = conversation w @ [user_turn input]"
    using func_conv [of rt t A ?called] f by (simp add: before_tool_simps)
  show ?thesis
    unfolding handleInput_dispatch [OF g p t(1) tr a tl c]
    by (cases res)
       (simp_all add: f cv before_tool_simps emit_simps push_simps tool_events_emit tool_events_push
          is_tool_event_simps)
qed

theorem registered_tool_invoked_once_witness:
  "gemini (sample_runtime (Inr reply_list_files))
      (conversation (sample_world [(''a.txt'', File ''x''), (''src'', Dir)]) @ [user_turn ''list files''])
     = Inr reply_list_files
   \<and> JSON_parse (sample_runtime (Inr reply_list_files)) (strip_fences (trim reply_list_files))
     = Inr (JObj [(''tool'', JStr ''list_files''), (''args'', JObj [])])
   \<and> registered ''list_files'' = Some List_files
   \<and> truthy (Some (JObj []))
   \<and> (\<exists>w'. handleInput (sample_runtime (Inr reply_list_files)) ''list files''
                (sample_world [(''a.txt'', File ''x''), (''src'', Dir)]) = (None, w')
         \<and> tool_events w' = [Fs_readdirSync ''.'']
         \<and> conversation w' =
              [user_turn ''list files'',
               \<lparr>role = Tool, name = Some (JStr ''list_files''), content = ''a.txt'' @ [CHR 0x0A] @ ''src''\<rparr>])"
proof -
  let ?rt = "sample_runtime (Inr reply_list_files)"
  let ?w = "sample_world [(''a.txt'', File ''x''), (''src'', Dir)]"
  let ?payload = "JObj [(''tool'', JStr ''list_files''), (''args'', JObj [])]"
  let ?called = "before_tool ''list files'' (trim reply_list_files) (JStr ''list_files'') (JObj []) ?w"
  have g: "gemini ?rt (conversation ?w @ [user_turn ''list files'']) = Inr reply_list_files"
    by (simp add: sample_runtime_def)
  have p: "JSON_parse ?rt (strip_fences (trim reply_list_files)) = Inr ?payload" by code_simp
  have t: "get_prop ?payload ''tool'' = Some (JStr ''list_files'')" "registered ''list_files'' = Some List_files"
    by (simp_all add: registered_def)
  have a: "get_prop ?payload ''args'' = Some (JObj [])" "truthy (Some (JObj []))" by simp_all
  have f: "fst (func ?rt List_files (JObj []) ?called) = Inr (''a.txt'' @ [CHR 0x0A] @ ''src'')"
    "tool_events (snd (func ?rt List_files (JObj []) ?called)) = [Fs_readdirSync ''.'']"
    by code_simp+
  have cw: "conversation ?w = []" by (simp add: sample_world_def)
  from registered_tool_invoked_once [OF g p t a]
  obtain w' where w': "handleInput ?rt ''list files'' ?w = (None, w')"
    "tool_events w' = tool_events (snd (func ?rt List_files (JObj []) ?called))"
    "conversation w' = conversation ?w @
       [user_turn ''list files'',
        \<lparr>role = Tool, name = Some (JStr ''list_files''),
         content = tool_turn_content (fst (func ?rt List_files (JObj []) ?called))\<rparr>]"
    by (auto simp: Let_def case_prod_beta)
  with f cw g p t a show ?thesis by (simp add: tool_turn_content_def)
qed


subsection \<open>C6: a handler that fails\<close>

text \<open>
  C6: for every tool invocation whose handler fails, exactly one tool turn is appended, its
  content begins with \<open>Error: \<close>, the promise of \<open>handleInput\<close> is not rejected, and the
  loop goes on with the next line.
\<close>

theorem failing_tool_recorded_as_error_turn:
  assumes g: "gemini rt (conversation w @ [user_turn input]) = Inr text"
    and p: "JSON_parse rt (strip_fences (trim text)) = Inr payload"
    and t: "get_prop payload ''tool'' = Some tool" "truthy (Some tool)"
    and a: "get_prop payload ''args'' = Some args" "truthy (Some args)"
    and e: "tools (to_string tool) = Some entry"
    and c: "call_func rt entry args (before_tool input (trim text) tool args w) = (Inl err, w4)"
  shows "\<exists>w'. handleInput rt input w = (None, w')
           \<and> conversation w' = conversation w @
                [user_turn input, \<lparr>role = Tool, name = Some tool, content = ''Error: '' @ exn_to_string err\<rparr>]
           \<and> prefix ''Error: '' (content (last (conversation w')))
           \<and> (toLowerCase (trim input) \<noteq> ''exit'' \<longrightarrow>
                 promptLoop rt (input # rest) w = promptLoop rt rest w')"
proof -
  have cv: "conversation w4 = conversation w @ [user_turn input]"
    using call_func_conv [of rt entry args "before_tool input (trim text) tool args w"] c
    by (simp add: before_tool_simps)
  note h = handleInput_dispatch [OF g p t a e c]
  show ?thesis
    by (simp add: h cv emit_simps push_simps tool_turn_content_def)
qed


theorem failing_tool_recorded_as_error_turn_witness:
  "gemini (sample_runtime (Inr reply_read_missing)) (conversation (sample_world []) @ [user_turn ''read nope.txt''])
     = Inr reply_read_missing
   \<and> JSON_parse (sample_runtime (Inr reply_read_missing)) (strip_fences (trim reply_read_missing))
     = Inr (JObj [(''tool'', JStr ''read_file''), (''args'', JObj [(''path'', JStr ''nope.txt'')])])
   \<and> tools (to_string (JStr ''read_file'')) = Some (Registered Read_file)
   \<and> fst (call_func (sample_runtime (Inr reply_read_missing)) (Registered Read_file)
          (JObj [(''path'', JStr ''nope.txt'')])
          (before_tool ''read nope.txt'' (trim reply_read_missing) (JStr ''read_file'')
             (JObj [(''path'', JStr ''nope.txt'')]) (sample_world [])))
     = Inl (fs_error ''ENOENT'' ''open'' ''nope.txt'')
   \<and> (\<exists>w'. handleInput (sample_runtime (Inr reply_read_missing)) ''read nope.txt'' (sample_world []) = (None, w')
         \<and> conversation w' =
              [user_turn ''read nope.txt'',
               \<lparr>role = Tool, name = Some (JStr ''read_file''),
                content = ''Error: '' @ exn_to_string (fs_error ''ENOENT'' ''open'' ''nope.txt'')\<rparr>]
         \<and> promptLoop (sample_runtime (Inr reply_read_missing)) [''read nope.txt'', ''exit''] (sample_world [])
             = (Closed, w'))"
proof -
  let ?rt = "sample_runtime (Inr reply_read_missing)"
  let ?args = "JObj [(''path'', JStr ''nope.txt'')]"
  let ?payload = "JObj [(''tool'', JStr ''read_file''), (''args'', ?args)]"
  let ?called = "before_tool ''read nope.txt'' (trim reply_read_missing) (JStr ''read_file'') ?args (sample_world [])"
  have g: "gemini ?rt (conversation (sample_world []) @ [user_turn ''read nope.txt'']) = Inr reply_read_missing"
    by (simp add: sample_runtime_def)
  have p: "JSON_parse ?rt (strip_fences (trim reply_read_missing)) = Inr ?payload" by code_simp
  have t: "get_prop ?payload ''tool'' = Some (JStr ''read_file'')" "truthy (Some (JStr ''read_file''))"
    by simp_all
  have a: "get_prop ?payload ''args'' = Some ?args" "truthy (Some ?args)" by simp_all
  have e: "tools (to_string (JStr ''read_file'')) = Some (Registered Read_file)" by code_simp
  have f: "fst (call_func ?rt (Registered Read_file) ?args ?called) = Inl (fs_error ''ENOENT'' ''open'' ''nope.txt'')"
    by code_simp
  then have c: "call_func ?rt (Registered Read_file) ?args ?called
      = (Inl (fs_error ''ENOENT'' ''open'' ''nope.txt''), snd (call_func ?rt (Registered Read_file) ?args ?called))"
    by (simp add: prod_eq_iff)
  have x: "toLowerCase (trim ''read nope.txt'') \<noteq> ''exit''" "toLowerCase (trim ''exit'') = ''exit''"
    by code_simp+
  have cw: "conversation (sample_world []) = []" by (simp add: sample_world_def)
  from failing_tool_recorded_as_error_turn [OF g p t a e c, of "[''exit'']"]
  obtain w' where w': "handleInput ?rt ''read nope.txt'' (sample_world []) = (None, w')"
    "conversation w' = conversation (sample_world []) @
       [user_turn ''read nope.txt'',
        \<lparr>role = Tool, name = Some (JStr ''read_file''),
         content = ''Error: '' @ exn_to_string (fs_error ''ENOENT'' ''open'' ''nope.txt'')\<rparr>]"
    "toLowerCase (trim ''read nope.txt'') \<noteq> ''exit'' \<longrightarrow>
       promptLoop ?rt [''read nope.txt'', ''exit''] (sample_world []) = promptLoop ?rt [''exit''] w'"
    by blast
  have "promptLoop ?rt [''read nope.txt'', ''exit''] (sample_world []) = (Closed, w')"
    using w'(3) x by simp
  with w'(1,2) cw g p e f show ?thesis by simp
qed


subsection \<open>Reading, replacing and writing in \<open>edit_file\<close>\<close>





subsection \<open>C3: \<open>edit_file\<close> replaces every match\<close>




subsection \<open>C8: \<open>edit_file\<close> where nothing matches\<close>







subsection \<open>Creating directories\<close>

lemma is_dir_update_Dir: "is_dir (AList.update d Dir fs) q \<longleftrightarrow> q = d \<or> is_dir fs q"
  by (auto simp: is_dir_def update_conv')

lemma mkdir_chain_ok:
  "list_all (\<lambda>x. case map_of fs x of Some (File c) \<Rightarrow> False | _ \<Rightarrow> True) ds \<Longrightarrow>
   \<exists>fs'. mkdir_chain ds fs = (None, fs') \<and> (\<forall>d\<in>set ds. is_dir fs' d)
      \<and> (\<forall>q. q \<notin> set ds \<longrightarrow> map_of fs' q = map_of fs q)
      \<and> (\<forall>q. is_dir fs q \<longrightarrow> is_dir fs' q)"
proof (induction ds arbitrary: fs)
  case Nil
  then show ?case by simp
next
  case (Cons d ds)
  show ?case
  proof (cases "is_dir fs d")
    case True
    from Cons.prems have "list_all (\<lambda>x. case map_of fs x of Some (File c) \<Rightarrow> False | _ \<Rightarrow> True) ds"
      by simp
    from Cons.IH [OF this] obtain fs' where
      "mkdir_chain ds fs = (None, fs')" "\<forall>d\<in>set ds. is_dir fs' d"
      "\<forall>q. q \<notin> set ds \<longrightarrow> map_of fs' q = map_of fs q" "\<forall>q. is_dir fs q \<longrightarrow> is_dir fs' q"
      by blast
    with True show ?thesis by auto
  next
    case False
    let ?fs1 = "AList.update d Dir fs"
    from Cons.prems False have none: "map_of fs d = None"
      by (cases "map_of fs d") (auto simp: is_dir_def split: node.splits)
    have "list_all (\<lambda>x. case map_of ?fs1 x of Some (File c) \<Rightarrow> False | _ \<Rightarrow> True) ds"
      using Cons.prems by (auto simp: list_all_iff update_conv')
    from Cons.IH [OF this] obtain fs' where fs':
      "mkdir_chain ds ?fs1 = (None, fs')" "\<forall>d\<in>set ds. is_dir fs' d"
      "\<forall>q. q \<notin> set ds \<longrightarrow> map_of fs' q = map_of ?fs1 q" "\<forall>q. is_dir ?fs1 q \<longrightarrow> is_dir fs' q"
      by blast
    have "mkdir_chain (d # ds) fs = (None, fs')"
      using False none fs'(1) by simp
    moreover have "\<forall>x\<in>set (d # ds). is_dir fs' x"
      using fs'(2,4) by (auto simp: is_dir_update_Dir)
    moreover have "\<forall>q. q \<notin> set (d # ds) \<longrightarrow> map_of fs' q = map_of fs q"
      using fs'(3) by (auto simp: update_conv')
    moreover have "\<forall>q. is_dir fs q \<longrightarrow> is_dir fs' q"
      using fs'(4) by (auto simp: is_dir_update_Dir)
    ultimately show ?thesis by blast
  qed
qed



lemma dirname_nonempty: "dirname p \<noteq> []"
proof (cases "p = []")
  case True
  then show ?thesis by (simp add: dirname_def)
next
  case False
  define r where "r = dropWhile (\<lambda>c. c \<noteq> CHR ''/'') (dropWhile (\<lambda>c. c = CHR ''/'') (rev (tl p)))"
  have d: "dirname p = (if r = [] then (if hd p = CHR ''/'' then ''/'' else ''.'')
                        else if hd p = CHR ''/'' \<and> length r = 1 then ''//'' else take (length r) p)"
    using False unfolding dirname_def r_def Let_def by simp
  show ?thesis
  proof (cases "r = []")
    case True
    then show ?thesis unfolding d by simp
  next
    case nr: False
    then have "take (length r) p \<noteq> []" using False by simp
    then show ?thesis unfolding d using nr by simp
  qed
qed



lemma mkdirSync_ok:
  assumes "no_file_in_the_way (files w) d" "d \<noteq> []"
  shows "\<exists>w'. mkdirSync d w = (None, w') \<and> trace w' = trace w @ [Fs_mkdirSync d]
           \<and> conversation w' = conversation w
           \<and> (\<forall>x\<in>set (mkdir_targets d). is_dir (files w') x)
           \<and> (\<forall>q. q \<notin> set (mkdir_targets d) \<longrightarrow> map_of (files w') q = map_of (files w) q)"
proof -
  from assms(1) mkdir_chain_ok [of "files w" "mkdir_targets d"]
  obtain fs' where "mkdir_chain (mkdir_targets d) (files w) = (None, fs')"
    "\<forall>x\<in>set (mkdir_targets d). is_dir fs' x"
    "\<forall>q. q \<notin> set (mkdir_targets d) \<longrightarrow> map_of fs' q = map_of (files w) q"
    unfolding no_file_in_the_way_def by blast
  then show ?thesis
    using assms(2) by (simp add: mkdirSync_def Let_def emit_simps)
qed



lemma writeFileSync_bad_data:
  "\<not> is_string d \<Longrightarrow>
   writeFileSync p d w = (Some (TypeError ''The data argument must be of type string''), emit (Fs_writeFileSync p d) w)"
  by (cases d rule: is_string.cases) (simp_all add: writeFileSync_def Let_def)

subsection \<open>C9: \<open>create_file\<close> and a later \<open>read_file\<close>\<close>




subsection \<open>C10: a failed \<open>create_file\<close> leaves its directories\<close>

text \<open>
  C10: \<open>create_file\<close> calls \<open>mkdirSync\<close> before \<open>writeFileSync\<close>, which is where the content is
  checked; when the content is absent or not a string the call fails, after the two calls
  in this order, and the directories above the path exist afterwards. In the witness they
  did not exist before the failed call, and the file itself is not created.
\<close>

theorem create_file_failed_write_keeps_directories:
  assumes a: "get_prop args ''path'' = Some (JStr p)" "\<not> is_string (get_prop args ''content'')"
    and nf: "no_file_in_the_way (files w) (dirname p)"
  shows "\<exists>e w'. create_file args w = (Inl e, w')
           \<and> trace w' = trace w @ [Fs_mkdirSync (dirname p),
                                    Fs_writeFileSync (Some (JStr p)) (get_prop args ''content'')]
           \<and> (\<forall>d\<in>set (mkdir_targets (dirname p)). is_dir (files w') d)
           \<and> (\<forall>q. q \<notin> set (mkdir_targets (dirname p)) \<longrightarrow> map_of (files w') q = map_of (files w) q)"
proof -
  from mkdirSync_ok [OF nf dirname_nonempty] obtain w1 where
    m: "mkdirSync (dirname p) w = (None, w1)"
    and t1: "trace w1 = trace w @ [Fs_mkdirSync (dirname p)]"
    and d1: "\<forall>x\<in>set (mkdir_targets (dirname p)). is_dir (files w1) x"
    and u1: "\<forall>q. q \<notin> set (mkdir_targets (dirname p)) \<longrightarrow> map_of (files w1) q = map_of (files w) q"
    by blast
  have "create_file args w =
      (Inl (TypeError ''The data argument must be of type string''),
       emit (Fs_writeFileSync (Some (JStr p)) (get_prop args ''content'')) w1)"
    by (simp add: create_file_def a(1) m writeFileSync_bad_data [OF a(2)] Let_def)
  then show ?thesis using t1 d1 u1 by (simp add: emit_simps)
qed



theorem create_file_failed_write_keeps_directories_witness:
  "\<not> is_string (get_prop (JObj [(''path'', JStr ''a/b/c.txt'')]) ''content'')
   \<and> \<not> is_dir (files (sample_world [])) ''a'' \<and> \<not> is_dir (files (sample_world [])) ''a/b''
   \<and> no_file_in_the_way (files (sample_world [])) (dirname ''a/b/c.txt'')
   \<and> mkdir_targets (dirname ''a/b/c.txt'') = [''a'', ''a/b'']
   \<and> (\<exists>e w'. create_file (JObj [(''path'', JStr ''a/b/c.txt'')]) (sample_world []) = (Inl e, w')
         \<and> is_dir (files w') ''a'' \<and> is_dir (files w') ''a/b''
         \<and> map_of (files w') ''a/b/c.txt'' = None)"
proof -
  let ?args = "JObj [(''path'', JStr ''a/b/c.txt'')]"
  let ?w = "sample_world []"
  have a: "get_prop ?args ''path'' = Some (JStr ''a/b/c.txt'')" "\<not> is_string (get_prop ?args ''content'')"
    by simp_all
  have nf: "no_file_in_the_way (files ?w) (dirname ''a/b/c.txt'')" by code_simp
  have nd: "\<not> is_dir (files ?w) ''a''" "\<not> is_dir (files ?w) ''a/b''" by code_simp+
  have t: "mkdir_targets (dirname ''a/b/c.txt'') = [''a'', ''a/b'']" by code_simp
  have m: "map_of (files ?w) ''a/b/c.txt'' = None" by (simp add: sample_world_def)
  from create_file_failed_write_keeps_directories [OF a nf] t nd nf a(2) m
  show ?thesis by auto
qed


end
